theory Spec2Isabelle
  imports Complex_Main
begin

section \<open>Geometry values\<close>

text \<open>
  The program (\<open>lensless/hardware/mask_3dmodel.py\<close>) turns a 2D mask array and a
  physical size into a 3D model made of boxes, cylinders and extruded profiles. All its
  numbers are Python floats; they are modelled as real numbers, so rounding is not part
  of the model.
\<close>

type_synonym vec2 = "real \<times> real"
type_synonym vec3 = "real \<times> real \<times> real"

definition vadd :: "vec3 \<Rightarrow> vec3 \<Rightarrow> vec3" where
  "vadd p q = (fst p + fst q, fst (snd p) + fst (snd q), snd (snd p) + snd (snd q))"

text \<open>
  A solid, as the CAD kernel builds it. \<open>Box c s\<close> is the axis-parallel box with
  minimum corner \<open>c\<close> and edge lengths \<open>s\<close>; \<open>Cylinder c r h\<close> has its base disc
  centred at \<open>c\<close>, radius \<open>r\<close> and height \<open>h\<close> along \<open>+z\<close>; \<open>Prism w d\<close> is the
  planar wire \<open>w\<close> (a list of edges) extruded by \<open>d\<close> along \<open>+z\<close>; \<open>CutThru s w\<close>
  is \<open>s\<close> with everything above and below the face of wire \<open>w\<close> removed.
\<close>

type_synonym edge = "vec3 \<times> vec3"

datatype solid =
    Box vec3 vec3
  | Cylinder vec3 real real
  | Prism "edge list" real
  | Fuse solid solid
  | Cut solid solid
  | CutThru solid "edge list"

text \<open>
  \<open>Shape.Center()\<close>, the centre of mass. A box and a cylinder have theirs at their
  geometric centre; a union of two solids that are point-symmetric about one common
  centre has it there too. No call chain of the program asks for any other centre, and
  the model gives none (\<open>None\<close>).
\<close>

fun Center :: "solid \<Rightarrow> vec3 option" where
  "Center (Box c s) = Some (vadd c (fst s / 2, fst (snd s) / 2, snd (snd s) / 2))"
| "Center (Cylinder c r h) = Some (vadd c (0, 0, h / 2))"
| "Center (Fuse a b) = (if Center a = Center b then Center a else None)"
| "Center (Prism w d) = None"
| "Center (Cut a b) = None"
| "Center (CutThru a w) = None"

subsection \<open>Point sets\<close>

text \<open>
  The points a solid occupies. A point is inside a planar profile when a ray from it in
  the \<open>+x\<close> direction crosses the profile's edges an odd number of times.
\<close>

definition crosses :: "edge \<Rightarrow> vec2 \<Rightarrow> bool" where
  "crosses e p =
     (let ax = fst (fst e); ay = fst (snd (fst e));
          bx = fst (snd e); by = fst (snd (snd e));
          x = fst p; y = snd p
      in ((y < ay) \<noteq> (y < by)) \<and> x < (bx - ax) * (y - ay) / (by - ay) + ax)"

definition in_profile :: "edge list \<Rightarrow> vec2 \<Rightarrow> bool" where
  "in_profile w p = odd (length (filter (\<lambda>e. crosses e p) w))"

definition wire_z :: "edge list \<Rightarrow> real" where
  "wire_z w = (case w of [] \<Rightarrow> 0 | e # _ \<Rightarrow> snd (snd (fst e)))"

fun inside :: "solid \<Rightarrow> vec3 \<Rightarrow> bool" where
  "inside (Box c s) p =
     (fst c \<le> fst p \<and> fst p \<le> fst c + fst s \<and>
      fst (snd c) \<le> fst (snd p) \<and> fst (snd p) \<le> fst (snd c) + fst (snd s) \<and>
      snd (snd c) \<le> snd (snd p) \<and> snd (snd p) \<le> snd (snd c) + snd (snd s))"
| "inside (Cylinder c r h) p =
     ((fst p - fst c)\<^sup>2 + (fst (snd p) - fst (snd c))\<^sup>2 \<le> r\<^sup>2 \<and>
      snd (snd c) \<le> snd (snd p) \<and> snd (snd p) \<le> snd (snd c) + h)"
| "inside (Prism w d) p =
     (in_profile w (fst p, fst (snd p)) \<and>
      min (wire_z w) (wire_z w + d) \<le> snd (snd p) \<and> snd (snd p) \<le> max (wire_z w) (wire_z w + d))"
| "inside (Fuse a b) p = (inside a p \<or> inside b p)"
| "inside (Cut a b) p = (inside a p \<and> \<not> inside b p)"
| "inside (CutThru a w) p = (inside a p \<and> \<not> in_profile w (fst p, fst (snd p)))"

section \<open>The CadQuery workplane\<close>

text \<open>
  The program builds every solid through the fluent interface of the CadQuery library
  (\<open>cq.Workplane("XY") .box(...) .rect(...) .cutThruAll()\<close>). The library is not part
  of the repository; its methods are modelled here from their documented behaviour, as
  far as the program's call chains use them. A workplane carries a stack of objects;
  a method works on the stack and returns a new workplane, which remembers the solid of
  the chain so far and shares the pending edges and wires of the chain. The errors are
  those the library's own Python code raises (\<open>ValueError\<close>, \<open>RuntimeError\<close>), and
  \<open>CenterNotModelled\<close> where the model does not compute a centre; what the geometry
  kernel underneath does with a degenerate solid (an edge of length zero, a profile that
  crosses itself) is not modelled.
\<close>

datatype obj = Vec vec3 | Shape solid | Edge vec3 vec3 | Wire "edge list"

datatype cq_error =
    NoSolidFound
  | NoPendingWires
  | NoStartPoint
  | CannotConvertToVector
  | NothingToCombine
  | CenterNotModelled

record workplane =
  objects :: "obj list"
  parent_solid :: "solid option"
  pendingEdges :: "edge list"
  pendingWires :: "edge list list"
  firstPoint :: "vec3 option"

definition bind_result :: "'e + 'a \<Rightarrow> ('a \<Rightarrow> 'e + 'b) \<Rightarrow> 'e + 'b" where
  "bind_result r f = (case r of Inl e \<Rightarrow> Inl e | Inr x \<Rightarrow> f x)"

fun collect :: "('e + 'a) list \<Rightarrow> 'e + 'a list" where
  "collect [] = Inr []"
| "collect (r # rs) =
     (case r of Inl e \<Rightarrow> Inl e
      | Inr x \<Rightarrow> (case collect rs of Inl e \<Rightarrow> Inl e | Inr xs \<Rightarrow> Inr (x # xs)))"

text \<open>\<open>cq.Workplane("XY")\<close>: the XY plane at the origin, with an empty stack.\<close>

definition Workplane_XY :: workplane where
  "Workplane_XY =
     \<lparr>objects = [], parent_solid = None, pendingEdges = [], pendingWires = [], firstPoint = None\<rparr>"

definition solids_of :: "obj list \<Rightarrow> solid list" where
  "solids_of os = concat (map (\<lambda>ob. case ob of Shape s \<Rightarrow> [s] | _ \<Rightarrow> []) os)"

definition fuse_all :: "solid \<Rightarrow> solid list \<Rightarrow> solid" where
  "fuse_all s ss = foldl Fuse s ss"

text \<open>
  \<open>_findType((Solid, Compound), searchStack=True, searchParents=True)\<close>: the solids of
  the current stack, else the nearest solid up the chain.
\<close>

definition findType_solid :: "workplane \<Rightarrow> solid option" where
  "findType_solid wp =
     (case solids_of (objects wp) of
        [] \<Rightarrow> parent_solid wp
      | s # ss \<Rightarrow> Some (fuse_all s ss))"

text \<open>\<open>findSolid\<close> raises \<open>ValueError\<close> when the chain holds no solid.\<close>

definition findSolid :: "workplane \<Rightarrow> cq_error + solid" where
  "findSolid wp = (case findType_solid wp of None \<Rightarrow> Inl NoSolidFound | Some s \<Rightarrow> Inr s)"

text \<open>\<open>newObject\<close>: a new workplane with the given stack, whose parent is this one.\<close>

definition newObject :: "obj list \<Rightarrow> workplane \<Rightarrow> workplane" where
  "newObject os wp = wp\<lparr>objects := os, parent_solid := findType_solid wp\<rparr>"

fun obj_Center :: "obj \<Rightarrow> cq_error + vec3" where
  "obj_Center (Vec v) = Inr v"
| "obj_Center (Shape s) = (case Center s of None \<Rightarrow> Inl CenterNotModelled | Some c \<Rightarrow> Inr c)"
| "obj_Center (Edge a b) = Inl CenterNotModelled"
| "obj_Center (Wire w) = Inl CenterNotModelled"

text \<open>
  The places \<open>eachpoint\<close> works at: the centre of each object on the stack, and the
  origin of the workplane when the stack is empty (the library: "If no items are on the
  stack, one box using the current workplane center is created").
\<close>

definition eachpoint_locs :: "workplane \<Rightarrow> cq_error + vec3 list" where
  "eachpoint_locs wp =
     (if objects wp = [] then Inr [(0, 0, 0)] else collect (map obj_Center (objects wp)))"

text \<open>
  \<open>_combineWithBase\<close> in its fuse mode: the new solids are fused onto the solid of
  the chain when there is one, else with one another.
\<close>

definition fuseWithBase :: "solid list \<Rightarrow> workplane \<Rightarrow> cq_error + workplane" where
  "fuseWithBase res wp =
     (case findType_solid wp of
        Some base \<Rightarrow> Inr (newObject [Shape (fuse_all base res)] wp)
      | None \<Rightarrow>
          (case res of
             [] \<Rightarrow> Inl NothingToCombine
           | s # ss \<Rightarrow> Inr (newObject [Shape (fuse_all s ss)] wp)))"

text \<open>
  \<open>box(length, width, height, centered, combine)\<close>: one box for each place of
  \<open>eachpoint\<close>; an axis that is centered puts the box's middle at the place, one that
  is not puts its minimum corner there. (The kernel refuses a box with a non-positive
  edge; the model has no such failure, so a statement that a box is returned speaks of
  the program only where the edges are positive.)
\<close>

definition box ::
  "real \<Rightarrow> real \<Rightarrow> real \<Rightarrow> bool \<times> bool \<times> bool \<Rightarrow> bool \<Rightarrow> workplane \<Rightarrow> cq_error + workplane" where
  "box len width height centered combine wp =
     (let offset = ((if fst centered then - len / 2 else 0),
                    (if fst (snd centered) then - width / 2 else 0),
                    (if snd (snd centered) then - height / 2 else 0))
      in bind_result (eachpoint_locs wp) (\<lambda>pnts.
           let res = map (\<lambda>loc. Box (vadd loc offset) (len, width, height)) pnts
           in if combine then fuseWithBase res wp
              else Inr (newObject (map Shape res) wp)))"

text \<open>\<open>cylinder(height, radius, centered, combine=True)\<close>, its axis along \<open>+z\<close>.\<close>

definition cylinder ::
  "real \<Rightarrow> real \<Rightarrow> bool \<times> bool \<times> bool \<Rightarrow> workplane \<Rightarrow> cq_error + workplane" where
  "cylinder height radius centered wp =
     (let offset = ((if fst centered then 0 else radius),
                    (if fst (snd centered) then 0 else radius),
                    (if snd (snd centered) then - height / 2 else 0))
      in bind_result (eachpoint_locs wp) (\<lambda>pnts.
           fuseWithBase (map (\<lambda>loc. Cylinder (vadd loc offset) radius height) pnts) wp))"

text \<open>\<open>Wire.makePolygon\<close> of a closed list of points.\<close>

definition makePolygon :: "vec3 list \<Rightarrow> edge list" where
  "makePolygon pts = zip pts (tl pts)"

text \<open>
  \<open>rect(xLen, yLen)\<close> (centered): one rectangular wire around each place of
  \<open>eachpoint\<close>; the wires are left on the stack and added to the pending wires.
\<close>

definition rect :: "real \<Rightarrow> real \<Rightarrow> workplane \<Rightarrow> cq_error + workplane" where
  "rect xLen yLen wp =
     (let points = [(xLen / - 2, yLen / - 2, 0), (xLen / 2, yLen / - 2, 0),
                    (xLen / 2, yLen / 2, 0), (xLen / - 2, yLen / 2, 0)];
          closed = points @ [hd points]
      in bind_result (eachpoint_locs wp) (\<lambda>pnts.
           let res = map (\<lambda>loc. makePolygon (map (vadd loc) closed)) pnts
           in Inr (newObject (map Wire res) (wp\<lparr>pendingWires := pendingWires wp @ res\<rparr>))))"

text \<open>
  \<open>cutThruAll()\<close>: the pending wires are cut through the solid of the chain, in both
  directions of the workplane's normal.
\<close>

definition cutThruAll :: "workplane \<Rightarrow> cq_error + workplane" where
  "cutThruAll wp =
     bind_result (findSolid wp) (\<lambda>solidRef.
       if pendingWires wp = [] then Inl NoPendingWires
       else Inr (newObject [Shape (foldl CutThru solidRef (pendingWires wp))]
                   (wp\<lparr>pendingWires := []\<rparr>)))"

text \<open>\<open>cut(toCut)\<close>: the solids of another workplane are subtracted from the solid of the chain.\<close>

definition cut :: "workplane \<Rightarrow> workplane \<Rightarrow> cq_error + workplane" where
  "cut toCut wp =
     bind_result (findSolid wp) (\<lambda>solidRef.
       Inr (newObject [Shape (foldl Cut solidRef (solids_of (objects toCut)))] wp))"

text \<open>\<open>pushPoints(pntList)\<close>: the points, in the plane \<open>z = 0\<close>, become the stack.\<close>

definition pushPoints :: "vec2 list \<Rightarrow> workplane \<Rightarrow> cq_error + workplane" where
  "pushPoints pntList wp = Inr (newObject (map (\<lambda>p. Vec (fst p, snd p, 0)) pntList) wp)"

text \<open>\<open>moveTo(x, y)\<close>: the stack becomes the one point.\<close>

definition moveTo :: "real \<Rightarrow> real \<Rightarrow> workplane \<Rightarrow> cq_error + workplane" where
  "moveTo x y wp = Inr (newObject [Vec (x, y, 0)] wp)"

text \<open>
  \<open>_findFromPoint\<close>: the point a line starts from is the last object of the stack (a
  point, or the end of an edge), or the origin when the stack is empty.
\<close>

definition findFromPoint :: "workplane \<Rightarrow> cq_error + vec3" where
  "findFromPoint wp =
     (if objects wp = [] then Inr (0, 0, 0)
      else (case last (objects wp) of
              Vec v \<Rightarrow> Inr v
            | Edge a b \<Rightarrow> Inr b
            | _ \<Rightarrow> Inl CannotConvertToVector))"

text \<open>
  \<open>lineTo(x, y)\<close>: an edge from that point to \<open>(x, y)\<close>; it is put on the stack and
  added to the pending edges, and the first pending edge fixes the first point. (The
  kernel refuses an edge of length zero; the model does not, so a statement that a
  profile is built speaks of the program only where its edges have a length.)
\<close>

definition lineTo :: "real \<Rightarrow> real \<Rightarrow> workplane \<Rightarrow> cq_error + workplane" where
  "lineTo x y wp =
     bind_result (findFromPoint wp) (\<lambda>startPoint.
       let endPoint = (x, y, 0)
       in Inr (newObject [Edge startPoint endPoint]
                 (wp\<lparr>pendingEdges := pendingEdges wp @ [(startPoint, endPoint)],
                     firstPoint := (case firstPoint wp of None \<Rightarrow> Some startPoint
                                    | Some f \<Rightarrow> Some f)\<rparr>)))"

definition dist_sq :: "vec3 \<Rightarrow> vec3 \<Rightarrow> real" where
  "dist_sq p q =
     (fst p - fst q)\<^sup>2 + (fst (snd p) - fst (snd q))\<^sup>2 + (snd (snd p) - snd (snd q))\<^sup>2"

text \<open>
  \<open>wire()\<close>: the pending edges become one wire, which replaces the edges on the stack
  and is added to the pending wires.
\<close>

definition wire :: "workplane \<Rightarrow> workplane" where
  "wire wp =
     (if pendingEdges wp = [] then wp
      else newObject
             (filter (\<lambda>ob. case ob of Edge a b \<Rightarrow> False | _ \<Rightarrow> True) (objects wp)
                @ [Wire (pendingEdges wp)])
             (wp\<lparr>pendingEdges := [], pendingWires := pendingWires wp @ [pendingEdges wp]\<rparr>))"

text \<open>
  \<open>close()\<close>: when the current point is further than \<open>1e-6\<close> from the first point, a
  closing edge is added; then the pending edges are made a wire.
\<close>

definition close :: "workplane \<Rightarrow> cq_error + workplane" where
  "close wp =
     bind_result (findFromPoint wp) (\<lambda>endPoint.
       case firstPoint wp of
         None \<Rightarrow> Inl NoStartPoint
       | Some startPoint \<Rightarrow>
           let wp' = (if dist_sq endPoint startPoint > (1 / 1000000)\<^sup>2
                      then wp\<lparr>pendingEdges := pendingEdges wp @ [(endPoint, startPoint)]\<rparr>
                      else wp)
           in Inr (wire (wp'\<lparr>firstPoint := None\<rparr>)))"

text \<open>
  \<open>extrude(distance)\<close> (combine=True): every pending wire is extruded along the
  normal of the workplane, and the prisms are fused onto the solid of the chain.
\<close>

definition extrude :: "real \<Rightarrow> workplane \<Rightarrow> cq_error + workplane" where
  "extrude distance wp =
     (if pendingWires wp = [] then Inl NoPendingWires
      else fuseWithBase (map (\<lambda>w. Prism w distance) (pendingWires wp))
             (wp\<lparr>pendingWires := []\<rparr>))"

text \<open>\<open>add(workplane)\<close>: the objects of another workplane are appended to the stack.\<close>

definition add :: "workplane \<Rightarrow> workplane \<Rightarrow> workplane" where
  "add other wp = wp\<lparr>objects := objects wp @ objects other\<rparr>"

text \<open>
  \<open>combine()\<close>: all solids of the stack are fused into one (no stack the program
  combines holds an edge or a wire).
\<close>

definition combine :: "workplane \<Rightarrow> cq_error + workplane" where
  "combine wp =
     (case solids_of (objects wp) of
        [] \<Rightarrow> Inl NothingToCombine
      | s # ss \<Rightarrow> Inr (newObject [Shape (fuse_all s ss)] wp))"

text \<open>A fluent chain \<open>wp.f().g().h()\<close>: it stops at the first method that raises.\<close>

definition chain :: "(workplane \<Rightarrow> cq_error + workplane) list \<Rightarrow> workplane \<Rightarrow> cq_error + workplane" where
  "chain fs wp = foldl bind_result (Inr wp) fs"

section \<open>The program\<close>

subsection \<open>Frames and connections\<close>

text \<open>
  \<open>SimpleFrame(padding)\<close> is the one frame class; \<open>CrossConnection\<close> and
  \<open>SaltireConnection\<close> are the connection classes, each with a \<open>thickness\<close> and an
  optional \<open>mask_radius\<close>.
\<close>

datatype Frame = SimpleFrame real

datatype Connection =
    CrossConnection real "real option"
  | SaltireConnection real "real option"

text \<open>A mask is a 2D array, given by its rows.\<close>

type_synonym ndarray = "real list list"

definition shape :: "ndarray \<Rightarrow> nat \<times> nat" where
  "shape mask_array = (length mask_array, (case mask_array of [] \<Rightarrow> 0 | row # _ \<Rightarrow> length row))"

definition SimpleFrame_generate :: "real \<Rightarrow> vec2 \<Rightarrow> real \<Rightarrow> cq_error + workplane" where
  "SimpleFrame_generate padding mask_size depth =
     (let width = fst mask_size; height = snd mask_size
      in chain
           [box (width + 2 * padding) (height + 2 * padding) depth (True, True, False) True,
            rect width height,
            cutThruAll]
           Workplane_XY)"

text \<open>
  The bore both connections end with: when \<open>mask_radius\<close> is not \<open>None\<close>, a cylinder
  of that radius is cut from the model.
\<close>

definition cut_mask_radius :: "real option \<Rightarrow> real \<Rightarrow> workplane \<Rightarrow> cq_error + workplane" where
  "cut_mask_radius mask_radius depth model =
     (case mask_radius of
        None \<Rightarrow> Inr model
      | Some r \<Rightarrow>
          bind_result (cylinder depth r (True, True, False) Workplane_XY) (\<lambda>circle.
            cut circle model))"

definition CrossConnection_generate ::
  "real \<Rightarrow> real option \<Rightarrow> ndarray \<Rightarrow> vec2 \<Rightarrow> real \<Rightarrow> cq_error + workplane" where
  "CrossConnection_generate thickness mask_radius mask_array mask_size depth =
     (let width = fst mask_size; height = snd mask_size
      in bind_result
           (chain
              [box thickness height depth (True, True, False) True,
               box width thickness depth (True, True, True) True]
              Workplane_XY)
           (cut_mask_radius mask_radius depth))"

definition SaltireConnection_generate ::
  "real \<Rightarrow> real option \<Rightarrow> ndarray \<Rightarrow> vec2 \<Rightarrow> real \<Rightarrow> cq_error + workplane" where
  "SaltireConnection_generate thickness mask_radius mask_array mask_size depth =
     (let width = fst mask_size; height = snd mask_size;
          width2 = width / 2; height2 = height / 2;
          l = thickness / sqrt 2
      in bind_result
           (chain
              [moveTo (- (width2 - l)) (- height2),
               lineTo (- width2) (- height2),
               lineTo (- width2) (- (height2 - l)),
               lineTo (width2 - l) height2,
               lineTo width2 height2,
               lineTo width2 (height2 - l),
               close,
               extrude depth,
               moveTo (- (width2 - l)) height2,
               lineTo (- width2) height2,
               lineTo (- width2) (height2 - l),
               lineTo (width2 - l) (- height2),
               lineTo width2 (- height2),
               lineTo width2 (- (height2 - l)),
               close,
               extrude depth]
              Workplane_XY)
           (cut_mask_radius mask_radius depth))"

fun Frame_generate :: "Frame \<Rightarrow> vec2 \<Rightarrow> real \<Rightarrow> cq_error + workplane" where
  "Frame_generate (SimpleFrame padding) mask_size depth =
     SimpleFrame_generate padding mask_size depth"

fun Connection_generate :: "Connection \<Rightarrow> ndarray \<Rightarrow> vec2 \<Rightarrow> real \<Rightarrow> cq_error + workplane" where
  "Connection_generate (CrossConnection thickness mask_radius) mask_array mask_size depth =
     CrossConnection_generate thickness mask_radius mask_array mask_size depth"
| "Connection_generate (SaltireConnection thickness mask_radius) mask_array mask_size depth =
     SaltireConnection_generate thickness mask_radius mask_array mask_size depth"

subsection \<open>The mask model\<close>

text \<open>\<open>np.argwhere(mask == 0)\<close>: the (row, column) indices of the zero cells, row by row.\<close>

definition row_zeros :: "nat \<Rightarrow> real list \<Rightarrow> (nat \<times> nat) list" where
  "row_zeros i row = map (\<lambda>(j, v). (i, j)) (filter (\<lambda>(j, v). v = 0) (enumerate 0 row))"

definition argwhere_zero :: "ndarray \<Rightarrow> (nat \<times> nat) list" where
  "argwhere_zero mask_array = concat (map (\<lambda>(i, row). row_zeros i row) (enumerate 0 mask_array))"

definition mask_to_points :: "ndarray \<Rightarrow> vec2 \<Rightarrow> vec2 \<Rightarrow> vec2 list" where
  "mask_to_points mask_array mask_size px_size =
     map (\<lambda>(i, j). ((real i - real (fst (shape mask_array)) / 2) * fst px_size,
                     (real j - real (snd (shape mask_array)) / 2) * snd px_size))
       (argwhere_zero mask_array)"

text \<open>
  \<open>px_size = self.mask_size / self.mask.shape\<close>, component by component. (For an array
  with an empty axis the float quotient is not finite; the theorems on the pixel size
  are about arrays with no empty axis.)
\<close>

definition px_size_of :: "vec2 \<Rightarrow> ndarray \<Rightarrow> vec2" where
  "px_size_of mask_size mask_array =
     (fst mask_size / real (fst (shape mask_array)), snd mask_size / real (snd (shape mask_array)))"

text \<open>The aperture boxes (\<open>mask_model\<close> in \<open>_generate_3d_model\<close>).\<close>

definition mask_model :: "ndarray \<Rightarrow> vec2 \<Rightarrow> real \<Rightarrow> cq_error + workplane" where
  "mask_model mask_array mask_size depth =
     (let px_size = px_size_of mask_size mask_array;
          points = mask_to_points mask_array mask_size px_size
      in chain
           [pushPoints points,
            box (fst px_size) (snd px_size) depth (False, False, False) False]
           Workplane_XY)"

definition axis_test :: "cq_error + workplane" where
  "axis_test =
     (let axis_thickness = 1 / 10; axis_length = 20
      in chain
           [box axis_thickness axis_thickness axis_length (True, True, True) True,
            box axis_thickness axis_length axis_thickness (True, True, True) True,
            box axis_length axis_thickness axis_thickness (True, True, True) True]
           Workplane_XY)"

definition generate_3d_model ::
  "ndarray \<Rightarrow> Frame \<Rightarrow> Connection \<Rightarrow> vec2 \<Rightarrow> real \<Rightarrow> bool \<Rightarrow> bool \<Rightarrow> cq_error + workplane" where
  "generate_3d_model mask_array frame connections mask_size depth simplify show_axis =
     bind_result (Frame_generate frame mask_size depth) (\<lambda>frame_model.
     bind_result (Connection_generate connections mask_array mask_size depth) (\<lambda>connection_model.
     bind_result (mask_model mask_array mask_size depth) (\<lambda>mask_model0.
     bind_result (if simplify then combine mask_model0 else Inr mask_model0) (\<lambda>mask_model1.
     bind_result
       (let model = add mask_model1 (add connection_model (add frame_model Workplane_XY))
        in if show_axis then bind_result axis_test (\<lambda>axis. Inr (add axis model))
           else Inr model)
       (\<lambda>model. if simplify then combine model else Inr model)))))"

record MaskModel =
  self_mask :: ndarray
  self_frame :: Frame
  self_connections :: Connection
  self_mask_size :: vec2
  self_depth :: real
  self_simplify :: bool
  self_show_axis :: bool
  self_model :: workplane

text \<open>
  \<open>MaskModel.__init__\<close>: the size, given in metres, is kept in millimetres, and the
  model is generated at once.
\<close>

definition MaskModel_init ::
  "ndarray \<Rightarrow> Frame \<Rightarrow> Connection \<Rightarrow> vec2 \<Rightarrow> real \<Rightarrow> bool \<Rightarrow> bool \<Rightarrow> cq_error + MaskModel" where
  "MaskModel_init mask_array frame connection mask_size depth simplify show_axis =
     (let mask_size_mm = (fst mask_size * 1000, snd mask_size * 1000)
      in bind_result
           (generate_3d_model mask_array frame connection mask_size_mm depth simplify show_axis)
           (\<lambda>model. Inr \<lparr>self_mask = mask_array, self_frame = frame,
                          self_connections = connection, self_mask_size = mask_size_mm,
                          self_depth = depth, self_simplify = simplify,
                          self_show_axis = show_axis, self_model = model\<rparr>))"

text \<open>The solids a generator returns (none when it raised).\<close>

definition result_solids :: "cq_error + workplane \<Rightarrow> solid list" where
  "result_solids r = (case r of Inl e \<Rightarrow> [] | Inr wp \<Rightarrow> solids_of (objects wp))"

subsection \<open>The solids of the specification\<close>

text \<open>
  The specification describes the solids in words. These definitions follow its words,
  to be compared with what the program builds.

  \<open>wire_through ps\<close> is the closed profile traced through the points \<open>ps\<close>: an edge
  from each point to the next, and a closing edge back to the first point (left out
  when the last point is within \<open>1e-6\<close> of the first). \<open>rect_wire w h z\<close> is the
  rectangle of size \<open>w\<close> by \<open>h\<close> centred on the z axis, at height \<open>z\<close>.
\<close>

definition wire_through :: "vec3 list \<Rightarrow> edge list" where
  "wire_through ps =
     zip ps (tl ps) @
     (if (1 / 1000000)\<^sup>2 < dist_sq (last ps) (hd ps) then [(last ps, hd ps)] else [])"

definition rect_wire :: "real \<Rightarrow> real \<Rightarrow> real \<Rightarrow> edge list" where
  "rect_wire w h z =
     [((- w / 2, - h / 2, z), (w / 2, - h / 2, z)),
      ((w / 2, - h / 2, z), (w / 2, h / 2, z)),
      ((w / 2, h / 2, z), (- w / 2, h / 2, z)),
      ((- w / 2, h / 2, z), (- w / 2, - h / 2, z))]"

text \<open>
  The frame: "a box (width+2*padding, height+2*padding, depth) with a through-cut cavity
  of exactly (width, height) centered in XY".
\<close>

definition spec_frame :: "real \<Rightarrow> real \<Rightarrow> real \<Rightarrow> real \<Rightarrow> solid" where
  "spec_frame padding width height depth =
     CutThru (Box (- (width + 2 * padding) / 2, - (height + 2 * padding) / 2, 0)
                  (width + 2 * padding, height + 2 * padding, depth))
             (rect_wire width height (depth / 2))"

text \<open>
  The cross: "union of a vertical strut box (thickness x height x depth) and a horizontal
  strut box (width x thickness x depth), both centered in XY and spanning the full depth".
\<close>

definition spec_cross_struts :: "real \<Rightarrow> real \<Rightarrow> real \<Rightarrow> real \<Rightarrow> solid" where
  "spec_cross_struts thickness width height depth =
     Fuse (Box (- thickness / 2, - height / 2, 0) (thickness, height, depth))
          (Box (- width / 2, - thickness / 2, 0) (width, thickness, depth))"

text \<open>
  The saltire: "for each of the two diagonals, trace a closed profile whose vertices are
  each corner offset inward by chamfer length l along both edges meeting that corner,
  extrude by depth, union the two diagonal prisms".
\<close>

definition spec_saltire_struts :: "real \<Rightarrow> real \<Rightarrow> real \<Rightarrow> real \<Rightarrow> solid" where
  "spec_saltire_struts l width height depth =
     Fuse (Prism (wire_through
                    [(- width / 2 + l, - height / 2, 0), (- width / 2, - height / 2, 0),
                     (- width / 2, - height / 2 + l, 0),
                     (width / 2 - l, height / 2, 0), (width / 2, height / 2, 0),
                     (width / 2, height / 2 - l, 0)]) depth)
          (Prism (wire_through
                    [(- width / 2 + l, height / 2, 0), (- width / 2, height / 2, 0),
                     (- width / 2, height / 2 - l, 0),
                     (width / 2 - l, - height / 2, 0), (width / 2, - height / 2, 0),
                     (width / 2, - height / 2 + l, 0)]) depth)"

text \<open>The bore: "a full-depth cylinder of that radius centered at the origin".\<close>

definition spec_bore :: "real \<Rightarrow> real \<Rightarrow> solid" where
  "spec_bore radius depth = Cylinder (0, 0, 0) radius depth"

text \<open>
  The aperture element: "one box per transparent cell, size (pixel_width, pixel_height,
  depth); pixel_size = physical_size / array_shape (per axis); anchor point =
  (row_index - H/2, col_index - W/2) element-wise x pixel_size, box anchored (not
  z-centered) so it spans z in [0, depth]".
\<close>

definition spec_aperture_box :: "ndarray \<Rightarrow> vec2 \<Rightarrow> real \<Rightarrow> nat \<times> nat \<Rightarrow> solid" where
  "spec_aperture_box m ms d = (\<lambda>(i, j).
     Box ((real i - real (fst (shape m)) / 2) * fst (px_size_of ms m),
          (real j - real (snd (shape m)) / 2) * snd (px_size_of ms m), 0)
         (fst (px_size_of ms m), snd (px_size_of ms m), d))"

section \<open>What the generators return\<close>

lemmas cq_defs = chain_def bind_result_def box_def rect_def cutThruAll_def cut_def cylinder_def
  moveTo_def lineTo_def close_def extrude_def wire_def pushPoints_def
  eachpoint_locs_def fuseWithBase_def newObject_def findSolid_def findType_solid_def
  findFromPoint_def solids_of_def fuse_all_def Workplane_XY_def vadd_def makePolygon_def
  cut_mask_radius_def Let_def

lemma SimpleFrame_generate_eq:
  "SimpleFrame_generate p (w, h) d =
     Inr \<lparr>objects = [Shape (spec_frame p w h d)],
          parent_solid =
            Some (Box (- (w + 2 * p) / 2, - (h + 2 * p) / 2, 0) (w + 2 * p, h + 2 * p, d)),
          pendingEdges = [], pendingWires = [], firstPoint = None\<rparr>"
  by (simp add: SimpleFrame_generate_def cq_defs spec_frame_def rect_wire_def field_simps)

lemma CrossConnection_generate_None:
  "CrossConnection_generate t None m (w, h) d =
     Inr \<lparr>objects = [Shape (spec_cross_struts t w h d)],
          parent_solid = Some (Box (- t / 2, - h / 2, 0) (t, h, d)),
          pendingEdges = [], pendingWires = [], firstPoint = None\<rparr>"
  by (simp add: CrossConnection_generate_def cq_defs spec_cross_struts_def)

lemma CrossConnection_generate_Some:
  "CrossConnection_generate t (Some r) m (w, h) d =
     Inr \<lparr>objects = [Shape (Cut (spec_cross_struts t w h d) (spec_bore r d))],
          parent_solid = Some (spec_cross_struts t w h d),
          pendingEdges = [], pendingWires = [], firstPoint = None\<rparr>"
  by (simp add: CrossConnection_generate_def cq_defs spec_cross_struts_def spec_bore_def)

lemma SaltireConnection_generate_None:
  "SaltireConnection_generate t None m (w, h) d =
     Inr \<lparr>objects = [Shape (spec_saltire_struts (t / sqrt 2) w h d)],
          parent_solid =
            (case spec_saltire_struts (t / sqrt 2) w h d of Fuse a b \<Rightarrow> Some a | _ \<Rightarrow> None),
          pendingEdges = [], pendingWires = [], firstPoint = None\<rparr>"
  by (simp add: SaltireConnection_generate_def cq_defs spec_saltire_struts_def wire_through_def
      dist_sq_def power2_commute)

lemma SaltireConnection_generate_Some:
  "SaltireConnection_generate t (Some r) m (w, h) d =
     Inr \<lparr>objects = [Shape (Cut (spec_saltire_struts (t / sqrt 2) w h d) (spec_bore r d))],
          parent_solid = Some (spec_saltire_struts (t / sqrt 2) w h d),
          pendingEdges = [], pendingWires = [], firstPoint = None\<rparr>"
  by (simp add: SaltireConnection_generate_def cq_defs spec_saltire_struts_def wire_through_def
      dist_sq_def power2_commute spec_bore_def)

lemma result_solids_Inr: "result_solids (Inr wp) = solids_of (objects wp)"
  by (simp add: result_solids_def)

lemma solids_of_Shape: "solids_of [Shape s] = [s]"
  by (simp add: solids_of_def)

lemma wire_z_wire_through: "wire_z (wire_through (p # q # ps)) = snd (snd p)"
  by (simp add: wire_z_def wire_through_def)

lemma in_profile_rect_wire_inside:
  assumes "\<bar>x\<bar> < w / 2" "\<bar>y\<bar> < h / 2"
  shows "in_profile (rect_wire w h z) (x, y)"
  using assms by (auto simp add: in_profile_def rect_wire_def crosses_def)

lemma in_profile_rect_wire_abs:
  assumes "\<bar>x\<bar> < \<bar>w\<bar> / 2" "\<bar>y\<bar> < \<bar>h\<bar> / 2"
  shows "in_profile (rect_wire w h z) (x, y)"
  using assms by (auto simp add: in_profile_def rect_wire_def crosses_def)

lemma wire_through_hexagon:
  assumes "(1 / 1000000)\<^sup>2 < dist_sq f a"
  shows "wire_through [a, b, c, d, e, f] = [(a, b), (b, c), (c, d), (d, e), (e, f), (f, a)]"
  using assms by (simp add: wire_through_def)

lemma in_profile_rect_wire_outside:
  assumes "0 < w" "0 < h" "\<bar>x\<bar> > w / 2 \<or> \<bar>y\<bar> > h / 2"
  shows "\<not> in_profile (rect_wire w h z) (x, y)"
  using assms by (auto simp add: in_profile_def rect_wire_def crosses_def)

section \<open>The connections\<close>

text \<open>
  C4. For every size and depth, \<open>CrossConnection.generate\<close> (with no bore) returns the
  union of a vertical strut box of thickness x height x depth and a horizontal strut box
  of width x thickness x depth. Both boxes are centred in XY and both span z from 0 to
  depth (the second box is centred in z, at the centre of the first), so that the solid
  is the centred plus sign.
\<close>

theorem CrossConnection_generate_plus_sign:
  "result_solids (CrossConnection_generate t None m (w, h) d) =
     [Fuse (Box (- t / 2, - h / 2, 0) (t, h, d)) (Box (- w / 2, - t / 2, 0) (w, t, d))] \<and>
   Center (Box (- t / 2, - h / 2, 0) (t, h, d)) = Some (0, 0, d / 2) \<and>
   Center (Box (- w / 2, - t / 2, 0) (w, t, d)) = Some (0, 0, d / 2) \<and>
   (inside (Fuse (Box (- t / 2, - h / 2, 0) (t, h, d)) (Box (- w / 2, - t / 2, 0) (w, t, d)))
      (x, y, z) \<longleftrightarrow>
      (\<bar>x\<bar> \<le> t / 2 \<and> \<bar>y\<bar> \<le> h / 2 \<or> \<bar>x\<bar> \<le> w / 2 \<and> \<bar>y\<bar> \<le> t / 2) \<and> 0 \<le> z \<and> z \<le> d)"
proof -
  have "result_solids (CrossConnection_generate t None m (w, h) d) = [spec_cross_struts t w h d]"
    by (simp add: CrossConnection_generate_None result_solids_Inr solids_of_Shape)
  then show ?thesis
    by (auto simp add: spec_cross_struts_def vadd_def)
qed

text \<open>
  C10. The support solids do not depend on the mask: for any two masks and the same
  thickness, bore radius, size and depth, each connection returns the same result.
\<close>

theorem Connection_generate_ignores_mask:
  "CrossConnection_generate t r m1 ms d = CrossConnection_generate t r m2 ms d \<and>
   SaltireConnection_generate t r m1 ms d = SaltireConnection_generate t r m2 ms d \<and>
   Connection_generate c m1 ms d = Connection_generate c m2 ms d"
proof -
  have 1: "CrossConnection_generate t' r' m1 ms d = CrossConnection_generate t' r' m2 ms d" for t' r'
    by (simp add: CrossConnection_generate_def)
  have 2: "SaltireConnection_generate t' r' m1 ms d = SaltireConnection_generate t' r' m2 ms d" for t' r'
    by (simp add: SaltireConnection_generate_def)
  from 1 2 show ?thesis by (cases c) simp_all
qed

text \<open>
  C6. For both connections, a bore radius of \<open>None\<close> leaves the strut solid as it is:
  the result is exactly the strut solid. A bore radius \<open>r\<close> makes the result the strut
  solid minus one cylinder of radius \<open>r\<close>, centred at the origin and spanning z from 0 to
  depth, cut after the struts are united: a point is in the result exactly when it is in
  the struts and not in that cylinder. The cylinder is as deep as the struts: every point
  of the struts has its z between 0 and depth.
\<close>

theorem Connection_generate_bore:
  "result_solids (CrossConnection_generate t None m (w, h) d) = [spec_cross_struts t w h d] \<and>
   result_solids (CrossConnection_generate t (Some r) m (w, h) d) =
     [Cut (spec_cross_struts t w h d) (Cylinder (0, 0, 0) r d)] \<and>
   result_solids (SaltireConnection_generate t None m (w, h) d) =
     [spec_saltire_struts (t / sqrt 2) w h d] \<and>
   result_solids (SaltireConnection_generate t (Some r) m (w, h) d) =
     [Cut (spec_saltire_struts (t / sqrt 2) w h d) (Cylinder (0, 0, 0) r d)] \<and>
   (inside (Cut s (Cylinder (0, 0, 0) r d)) (x, y, z) \<longleftrightarrow>
      inside s (x, y, z) \<and> \<not> (x\<^sup>2 + y\<^sup>2 \<le> r\<^sup>2 \<and> 0 \<le> z \<and> z \<le> d)) \<and>
   (0 \<le> d \<and>
    (inside (spec_cross_struts t w h d) (x, y, z) \<or>
     inside (spec_saltire_struts (t / sqrt 2) w h d) (x, y, z)) \<longrightarrow>
    0 \<le> z \<and> z \<le> d)"
  by (auto simp add: CrossConnection_generate_None CrossConnection_generate_Some
      SaltireConnection_generate_None SaltireConnection_generate_Some
      result_solids_Inr solids_of_Shape spec_bore_def spec_cross_struts_def
      spec_saltire_struts_def wire_z_wire_through)

theorem Connection_generate_bore_witness:
  "result_solids (CrossConnection_generate (1 / 10) (Some (1 / 5)) [[0]] (1, 1) (1 / 2)) =
     [Cut (spec_cross_struts (1 / 10) 1 1 (1 / 2)) (Cylinder (0, 0, 0) (1 / 5) (1 / 2))] \<and>
   inside (spec_cross_struts (1 / 10) 1 1 (1 / 2)) (2 / 5, 0, 1 / 4) \<and>
   inside (Cut (spec_cross_struts (1 / 10) 1 1 (1 / 2)) (Cylinder (0, 0, 0) (1 / 5) (1 / 2)))
     (2 / 5, 0, 1 / 4) \<and>
   \<not> inside (Cut (spec_cross_struts (1 / 10) 1 1 (1 / 2)) (Cylinder (0, 0, 0) (1 / 5) (1 / 2)))
     (0, 0, 1 / 4) \<and>
   (0 :: real) \<le> 1 / 4 \<and> (1 / 4 :: real) \<le> 1 / 2"
proof -
  have in_struts: "inside (spec_cross_struts (1 / 10) 1 1 (1 / 2)) (2 / 5, 0, 1 / 4)"
    by (simp add: spec_cross_struts_def)
  have in_struts0: "inside (spec_cross_struts (1 / 10) 1 1 (1 / 2)) (0, 0, 1 / 4)"
    by (simp add: spec_cross_struts_def)
  note a = Connection_generate_bore [where t = "1 / 10" and r = "1 / 5" and m = "[[0]]" and w = 1
      and h = 1 and d = "1 / 2" and s = "spec_cross_struts (1 / 10) 1 1 (1 / 2)"
      and x = "2 / 5" and y = 0 and z = "1 / 4"]
  note b = Connection_generate_bore [where t = "1 / 10" and r = "1 / 5" and m = "[[0]]" and w = 1
      and h = 1 and d = "1 / 2" and s = "spec_cross_struts (1 / 10) 1 1 (1 / 2)"
      and x = 0 and y = 0 and z = "1 / 4"]
  from a in_struts have 1: "inside (Cut (spec_cross_struts (1 / 10) 1 1 (1 / 2)) (Cylinder (0, 0, 0) (1 / 5) (1 / 2)))
     (2 / 5, 0, 1 / 4)" by (simp add: power2_eq_square)
  from b in_struts0 have 2: "\<not> inside (Cut (spec_cross_struts (1 / 10) 1 1 (1 / 2)) (Cylinder (0, 0, 0) (1 / 5) (1 / 2)))
     (0, 0, 1 / 4)" by (simp add: power2_eq_square)
  from a in_struts have 3: "(0 :: real) \<le> 1 / 4 \<and> (1 / 4 :: real) \<le> 1 / 2" by simp
  from a have 4: "result_solids (CrossConnection_generate (1 / 10) (Some (1 / 5)) [[0]] (1, 1) (1 / 2)) =
     [Cut (spec_cross_struts (1 / 10) 1 1 (1 / 2)) (Cylinder (0, 0, 0) (1 / 5) (1 / 2))]" by simp
  from 1 2 3 4 in_struts show ?thesis by simp
qed

text \<open>
  C5. In \<open>SaltireConnection.generate\<close> the chamfer length that offsets the vertices of
  both diagonal profiles from the corners is thickness / sqrt 2, whatever the size, the
  depth, the mask and the bore radius are. (Floats are modelled as reals, so the
  equality is exact.) With this length the chamfered end of a strut, from one offset
  vertex to the other across a corner, is as long as the thickness.
\<close>

theorem SaltireConnection_generate_chamfer:
  "result_solids (SaltireConnection_generate t None m (w, h) d) =
     [spec_saltire_struts (t / sqrt 2) w h d] \<and>
   result_solids (SaltireConnection_generate t (Some r) m (w, h) d) =
     [Cut (spec_saltire_struts (t / sqrt 2) w h d) (spec_bore r d)] \<and>
   dist_sq (- w / 2 + t / sqrt 2, - h / 2, 0) (- w / 2, - h / 2 + t / sqrt 2, 0) = t\<^sup>2"
  by (simp add: SaltireConnection_generate_None SaltireConnection_generate_Some
      result_solids_Inr solids_of_Shape dist_sq_def power_divide)

text \<open>
  C7, as the program has it. \<open>SaltireConnection.generate\<close> makes no check of the chamfer
  length against the size. For every positive depth and every thickness whose chamfer
  length l = thickness / sqrt 2 leaves each edge of the two profiles longer than 1e-6
  (1e-6 < l and l + 1e-6 below the smaller of width and height), whether or not l exceeds
  half the smaller dimension, it returns the union of the two extruded hexagonal profiles
  (minus the bore, for a positive radius). Other configurations are left to the geometry
  kernel and are not spoken of.
\<close>

theorem SaltireConnection_generate_long_chamfer:
  assumes "0 < d" "1 / 1000000 < t / sqrt 2" "t / sqrt 2 + 1 / 1000000 < min w h"
    and "\<forall>\<rho>. r = Some \<rho> \<longrightarrow> 0 < \<rho>"
  shows "\<not> isl (SaltireConnection_generate t r m (w, h) d) \<and>
         result_solids (SaltireConnection_generate t r m (w, h) d) =
           [case r of None \<Rightarrow> spec_saltire_struts (t / sqrt 2) w h d
            | Some \<rho> \<Rightarrow> Cut (spec_saltire_struts (t / sqrt 2) w h d) (spec_bore \<rho> d)] \<and>
         spec_saltire_struts (t / sqrt 2) w h d =
           Fuse (Prism [((- w / 2 + t / sqrt 2, - h / 2, 0), (- w / 2, - h / 2, 0)),
                        ((- w / 2, - h / 2, 0), (- w / 2, - h / 2 + t / sqrt 2, 0)),
                        ((- w / 2, - h / 2 + t / sqrt 2, 0), (w / 2 - t / sqrt 2, h / 2, 0)),
                        ((w / 2 - t / sqrt 2, h / 2, 0), (w / 2, h / 2, 0)),
                        ((w / 2, h / 2, 0), (w / 2, h / 2 - t / sqrt 2, 0)),
                        ((w / 2, h / 2 - t / sqrt 2, 0), (- w / 2 + t / sqrt 2, - h / 2, 0))] d)
                (Prism [((- w / 2 + t / sqrt 2, h / 2, 0), (- w / 2, h / 2, 0)),
                        ((- w / 2, h / 2, 0), (- w / 2, h / 2 - t / sqrt 2, 0)),
                        ((- w / 2, h / 2 - t / sqrt 2, 0), (w / 2 - t / sqrt 2, - h / 2, 0)),
                        ((w / 2 - t / sqrt 2, - h / 2, 0), (w / 2, - h / 2, 0)),
                        ((w / 2, - h / 2, 0), (w / 2, - h / 2 + t / sqrt 2, 0)),
                        ((w / 2, - h / 2 + t / sqrt 2, 0), (- w / 2 + t / sqrt 2, h / 2, 0))] d)"
proof -
  define l where "l = t / sqrt 2"
  from assms have lw: "1 / 1000000 < w - l" and lh: "1 / 1000000 < h - l"
    by (simp_all add: l_def)
  have "(1 / 1000000)\<^sup>2 < (w - l)\<^sup>2"
    using lw by (intro power_strict_mono) simp_all
  moreover have "0 \<le> (h - l)\<^sup>2" by simp
  ultimately have far: "(1 / 1000000)\<^sup>2 < (w - l)\<^sup>2 + (h - l)\<^sup>2" by linarith
  have d1: "dist_sq (w / 2, h / 2 - l, 0) (- w / 2 + l, - h / 2, 0) = (w - l)\<^sup>2 + (h - l)\<^sup>2"
    by (simp add: dist_sq_def field_simps power2_eq_square)
  have d2: "dist_sq (w / 2, - h / 2 + l, 0) (- w / 2 + l, h / 2, 0) = (w - l)\<^sup>2 + (h - l)\<^sup>2"
    by (simp add: dist_sq_def field_simps power2_eq_square)
  have struts: "spec_saltire_struts l w h d =
           Fuse (Prism [((- w / 2 + l, - h / 2, 0), (- w / 2, - h / 2, 0)),
                        ((- w / 2, - h / 2, 0), (- w / 2, - h / 2 + l, 0)),
                        ((- w / 2, - h / 2 + l, 0), (w / 2 - l, h / 2, 0)),
                        ((w / 2 - l, h / 2, 0), (w / 2, h / 2, 0)),
                        ((w / 2, h / 2, 0), (w / 2, h / 2 - l, 0)),
                        ((w / 2, h / 2 - l, 0), (- w / 2 + l, - h / 2, 0))] d)
                (Prism [((- w / 2 + l, h / 2, 0), (- w / 2, h / 2, 0)),
                        ((- w / 2, h / 2, 0), (- w / 2, h / 2 - l, 0)),
                        ((- w / 2, h / 2 - l, 0), (w / 2 - l, - h / 2, 0)),
                        ((w / 2 - l, - h / 2, 0), (w / 2, - h / 2, 0)),
                        ((w / 2, - h / 2, 0), (w / 2, - h / 2 + l, 0)),
                        ((w / 2, - h / 2 + l, 0), (- w / 2 + l, h / 2, 0))] d)"
    unfolding spec_saltire_struts_def
    by (simp only: wire_through_hexagon [OF far [folded d1]] wire_through_hexagon [OF far [folded d2]])
  have res: "\<not> isl (SaltireConnection_generate t r m (w, h) d) \<and>
         result_solids (SaltireConnection_generate t r m (w, h) d) =
           [case r of None \<Rightarrow> spec_saltire_struts (t / sqrt 2) w h d
            | Some \<rho> \<Rightarrow> Cut (spec_saltire_struts (t / sqrt 2) w h d) (spec_bore \<rho> d)]"
    by (cases r) (simp_all add: SaltireConnection_generate_None SaltireConnection_generate_Some
        result_solids_Inr solids_of_Shape)
  from res struts show ?thesis by (simp add: l_def)
qed

theorem SaltireConnection_generate_long_chamfer_witness:
  "min 2 1 / 2 < (1 :: real) / sqrt 2 \<and>
   \<not> isl (SaltireConnection_generate 1 None [[0]] (2, 1) (1 / 2)) \<and>
   result_solids (SaltireConnection_generate 1 None [[0]] (2, 1) (1 / 2)) =
     [spec_saltire_struts (1 / sqrt 2) 2 1 (1 / 2)]"
proof -
  have "sqrt 2 < 2" by (rule real_less_lsqrt) simp_all
  then have half: "(1 :: real) / 2 < 1 / sqrt 2" by (simp add: field_simps)
  have "7 / 5 < sqrt 2" by (rule real_less_rsqrt) (simp add: power2_eq_square)
  then have "1 / sqrt 2 < 1 / (7 / 5)" by (intro divide_strict_left_mono) simp_all
  then have up: "1 / sqrt 2 + 1 / 1000000 < min 2 (1 :: real)" by simp
  have lo: "1 / 1000000 < (1 :: real) / sqrt 2" using half by simp
  have dp: "0 < (1 / 2 :: real)" by simp
  have rr: "\<forall>\<rho>. (None :: real option) = Some \<rho> \<longrightarrow> 0 < \<rho>" by simp
  show ?thesis
    using SaltireConnection_generate_long_chamfer [OF dp lo up rr, of "[[0]]"] half
    by simp
qed

text \<open>
  C7 fails as stated: with thickness 1 on a 1 x 1 mask the chamfer length 1 / sqrt 2
  exceeds half the smaller dimension, and a solid is returned.
\<close>

theorem SaltireConnection_generate_thick:
  "min 1 1 / 2 < (1::real) / sqrt 2 \<and> \<not> isl (SaltireConnection_generate 1 None [[0]] (1, 1) 1) \<and>
   result_solids (SaltireConnection_generate 1 None [[0]] (1, 1) 1) =
     [spec_saltire_struts (1 / sqrt 2) 1 1 1]"
proof -
  have "sqrt 2 < 2" by (rule real_less_lsqrt) simp_all
  then have "(1::real) / 2 < 1 / sqrt 2" by (simp add: field_simps)
  then show ?thesis
    by (simp add: SaltireConnection_generate_None result_solids_Inr solids_of_Shape)
qed

section \<open>The frame\<close>

text \<open>
  C3. For every positive width and height (and every depth and padding),
  \<open>SimpleFrame.generate\<close> returns the box of dimensions (width + 2 padding,
  height + 2 padding, depth), centred in XY and spanning z from 0 to depth, cut through
  by the rectangle of exactly width by height centred in XY, which does not depend on
  the padding. Every point with \<open>|x| < width/2\<close> and \<open>|y| < height/2\<close> is outside the
  solid, at every height; a point with \<open>|x| > width/2\<close> or \<open>|y| > height/2\<close> is in the
  solid exactly when it is in the outer box.
\<close>

theorem SimpleFrame_generate_box_with_cavity:
  assumes "0 < w" "0 < h"
  shows "result_solids (SimpleFrame_generate p (w, h) d) =
           [CutThru (Box (- (w + 2 * p) / 2, - (h + 2 * p) / 2, 0) (w + 2 * p, h + 2 * p, d))
                    (rect_wire w h (d / 2))] \<and>
         (\<bar>x\<bar> < w / 2 \<and> \<bar>y\<bar> < h / 2 \<longrightarrow>
            \<not> inside (CutThru (Box (- (w + 2 * p) / 2, - (h + 2 * p) / 2, 0) (w + 2 * p, h + 2 * p, d))
                    (rect_wire w h (d / 2))) (x, y, z)) \<and>
         (\<bar>x\<bar> > w / 2 \<or> \<bar>y\<bar> > h / 2 \<longrightarrow>
            (inside (CutThru (Box (- (w + 2 * p) / 2, - (h + 2 * p) / 2, 0) (w + 2 * p, h + 2 * p, d))
                    (rect_wire w h (d / 2))) (x, y, z) \<longleftrightarrow>
             \<bar>x\<bar> \<le> (w + 2 * p) / 2 \<and> \<bar>y\<bar> \<le> (h + 2 * p) / 2 \<and> 0 \<le> z \<and> z \<le> d))"
proof (intro conjI impI)
  show "result_solids (SimpleFrame_generate p (w, h) d) =
           [CutThru (Box (- (w + 2 * p) / 2, - (h + 2 * p) / 2, 0) (w + 2 * p, h + 2 * p, d))
                    (rect_wire w h (d / 2))]"
    by (simp add: SimpleFrame_generate_eq result_solids_Inr solids_of_Shape spec_frame_def)
next
  assume "\<bar>x\<bar> < w / 2 \<and> \<bar>y\<bar> < h / 2"
  then have "in_profile (rect_wire w h (d / 2)) (x, y)"
    by (simp add: in_profile_rect_wire_inside)
  then show "\<not> inside (CutThru (Box (- (w + 2 * p) / 2, - (h + 2 * p) / 2, 0) (w + 2 * p, h + 2 * p, d))
                    (rect_wire w h (d / 2))) (x, y, z)"
    by simp
next
  assume "\<bar>x\<bar> > w / 2 \<or> \<bar>y\<bar> > h / 2"
  with assms have "\<not> in_profile (rect_wire w h (d / 2)) (x, y)"
    by (rule in_profile_rect_wire_outside)
  then show "inside (CutThru (Box (- (w + 2 * p) / 2, - (h + 2 * p) / 2, 0) (w + 2 * p, h + 2 * p, d))
                    (rect_wire w h (d / 2))) (x, y, z) \<longleftrightarrow>
             \<bar>x\<bar> \<le> (w + 2 * p) / 2 \<and> \<bar>y\<bar> \<le> (h + 2 * p) / 2 \<and> 0 \<le> z \<and> z \<le> d"
    by (auto simp add: field_simps)
qed

theorem SimpleFrame_generate_box_with_cavity_witness:
  "result_solids (SimpleFrame_generate 2 (1, 1) (1 / 2)) =
     [CutThru (Box (- (5 / 2), - (5 / 2), 0) (5, 5, 1 / 2)) (rect_wire 1 1 (1 / 4))] \<and>
   \<not> inside (CutThru (Box (- (5 / 2), - (5 / 2), 0) (5, 5, 1 / 2)) (rect_wire 1 1 (1 / 4))) (0, 0, 1 / 4) \<and>
   inside (CutThru (Box (- (5 / 2), - (5 / 2), 0) (5, 5, 1 / 2)) (rect_wire 1 1 (1 / 4))) (1, 0, 1 / 4)"
proof -
  have pos: "0 < (1::real)" by simp
  show ?thesis
    using SimpleFrame_generate_box_with_cavity [OF pos pos, where p = 2 and d = "1 / 2" and x = 0 and y = 0 and z = "1 / 4"]
      SimpleFrame_generate_box_with_cavity [OF pos pos, where p = 2 and d = "1 / 2" and x = 1 and y = 0 and z = "1 / 4"]
    by simp
qed

text \<open>
  C8, as the program has it. \<open>SimpleFrame.generate\<close> makes no check of its own, and a
  negative width or height is not rejected. For every non-zero width and height, positive
  or negative, every positive depth and every padding that leaves a wall around the cut
  (|width| < width + 2 padding, |height| < height + 2 padding), it returns the box
  (width + 2 padding, height + 2 padding, depth) cut through by the rectangle of
  |width| by |height|. A non-positive depth or outer box is left to the geometry kernel
  and is not spoken of.
\<close>

theorem SimpleFrame_generate_nonzero_size:
  assumes "w \<noteq> 0" "h \<noteq> 0" "\<bar>w\<bar> < w + 2 * p" "\<bar>h\<bar> < h + 2 * p" "0 < d"
  shows "\<not> isl (SimpleFrame_generate p (w, h) d) \<and>
         result_solids (SimpleFrame_generate p (w, h) d) =
           [CutThru (Box (- (w + 2 * p) / 2, - (h + 2 * p) / 2, 0) (w + 2 * p, h + 2 * p, d))
                    (rect_wire w h (d / 2))] \<and>
         (\<bar>x\<bar> < \<bar>w\<bar> / 2 \<and> \<bar>y\<bar> < \<bar>h\<bar> / 2 \<longrightarrow>
            \<not> inside (CutThru (Box (- (w + 2 * p) / 2, - (h + 2 * p) / 2, 0) (w + 2 * p, h + 2 * p, d))
                    (rect_wire w h (d / 2))) (x, y, z)) \<and>
         (\<bar>w\<bar> / 2 < \<bar>x\<bar> \<and> \<bar>x\<bar> \<le> (w + 2 * p) / 2 \<and> \<bar>y\<bar> \<le> (h + 2 * p) / 2 \<and> 0 \<le> z \<and> z \<le> d \<longrightarrow>
            inside (CutThru (Box (- (w + 2 * p) / 2, - (h + 2 * p) / 2, 0) (w + 2 * p, h + 2 * p, d))
                    (rect_wire w h (d / 2))) (x, y, z))"
proof (intro conjI impI)
  show "\<not> isl (SimpleFrame_generate p (w, h) d)"
    by (simp add: SimpleFrame_generate_eq)
  show "result_solids (SimpleFrame_generate p (w, h) d) =
           [CutThru (Box (- (w + 2 * p) / 2, - (h + 2 * p) / 2, 0) (w + 2 * p, h + 2 * p, d))
                    (rect_wire w h (d / 2))]"
    by (simp add: SimpleFrame_generate_eq result_solids_Inr solids_of_Shape spec_frame_def)
next
  assume "\<bar>x\<bar> < \<bar>w\<bar> / 2 \<and> \<bar>y\<bar> < \<bar>h\<bar> / 2"
  then have "in_profile (rect_wire w h (d / 2)) (x, y)"
    by (simp add: in_profile_rect_wire_abs)
  then show "\<not> inside (CutThru (Box (- (w + 2 * p) / 2, - (h + 2 * p) / 2, 0) (w + 2 * p, h + 2 * p, d))
                    (rect_wire w h (d / 2))) (x, y, z)"
    by simp
next
  assume a: "\<bar>w\<bar> / 2 < \<bar>x\<bar> \<and> \<bar>x\<bar> \<le> (w + 2 * p) / 2 \<and> \<bar>y\<bar> \<le> (h + 2 * p) / 2 \<and> 0 \<le> z \<and> z \<le> d"
  then have "\<not> in_profile (rect_wire w h (d / 2)) (x, y)"
    by (auto simp add: in_profile_def rect_wire_def crosses_def)
  with a show "inside (CutThru (Box (- (w + 2 * p) / 2, - (h + 2 * p) / 2, 0) (w + 2 * p, h + 2 * p, d))
                    (rect_wire w h (d / 2))) (x, y, z)"
    by (auto simp add: field_simps)
qed

theorem SimpleFrame_generate_nonzero_size_witness:
  "(- 2 :: real) \<le> 0 \<and> \<not> isl (SimpleFrame_generate 3 (- 2, 1) (1 / 2)) \<and>
   result_solids (SimpleFrame_generate 3 (- 2, 1) (1 / 2)) =
     [CutThru (Box (- 2, - (7 / 2), 0) (4, 7, 1 / 2)) (rect_wire (- 2) 1 (1 / 4))] \<and>
   \<not> inside (CutThru (Box (- 2, - (7 / 2), 0) (4, 7, 1 / 2)) (rect_wire (- 2) 1 (1 / 4))) (0, 0, 1 / 4) \<and>
   inside (CutThru (Box (- 2, - (7 / 2), 0) (4, 7, 1 / 2)) (rect_wire (- 2) 1 (1 / 4))) (3 / 2, 0, 1 / 4)"
  using SimpleFrame_generate_nonzero_size [where w = "- 2" and h = 1 and p = 3 and d = "1 / 2"
      and x = 0 and y = 0 and z = "1 / 4"]
    SimpleFrame_generate_nonzero_size [where w = "- 2" and h = 1 and p = 3 and d = "1 / 2"
      and x = "3 / 2" and y = 0 and z = "1 / 4"]
  by simp

text \<open>
  C8 fails as stated: for the negative size (-1, -1), with padding 2 and depth 1, a solid
  is returned (a 3 x 3 x 1 box with a 1 x 1 cut).
\<close>

theorem SimpleFrame_generate_negative_size:
  "(- 1 :: real) \<le> 0 \<and> \<not> isl (SimpleFrame_generate 2 (- 1, - 1) 1) \<and>
   result_solids (SimpleFrame_generate 2 (- 1, - 1) 1) =
     [CutThru (Box (- (3 / 2), - (3 / 2), 0) (3, 3, 1)) (rect_wire (- 1) (- 1) (1 / 2))]"
  by (simp add: SimpleFrame_generate_eq result_solids_Inr solids_of_Shape spec_frame_def)

section \<open>The aperture boxes and the whole model\<close>

subsection \<open>The zero cells\<close>

lemma argwhere_zero_mem:
  "(i, j) \<in> set (argwhere_zero m) \<longleftrightarrow> i < length m \<and> j < length (m ! i) \<and> m ! i ! j = 0"
  by (auto simp add: argwhere_zero_def row_zeros_def in_set_enumerate_eq image_iff)

lemma distinct_row_zeros: "distinct (row_zeros i row)"
proof -
  have "distinct (map fst (filter (\<lambda>(j, v). v = 0) (enumerate 0 row)))"
    by (rule distinct_map_filter) simp
  then have "distinct (map (\<lambda>p. (i, fst p)) (filter (\<lambda>(j, v). v = 0) (enumerate 0 row)))"
    by (simp add: distinct_map inj_on_def)
  then show ?thesis by (simp add: row_zeros_def split_def)
qed

lemma fst_row_zeros: "p \<in> set (row_zeros i row) \<Longrightarrow> fst p = i"
  by (auto simp add: row_zeros_def)

lemma fst_rows_from:
  "p \<in> set (concat (map (\<lambda>(i, row). row_zeros i row) (enumerate n m))) \<Longrightarrow> n \<le> fst p"
proof (induction m arbitrary: n)
  case Nil
  then show ?case by simp
next
  case (Cons row m)
  from Cons.prems have "p \<in> set (row_zeros n row) \<or>
      p \<in> set (concat (map (\<lambda>(i, row). row_zeros i row) (enumerate (Suc n) m)))"
    by simp
  then show ?case
  proof
    assume "p \<in> set (row_zeros n row)"
    then show ?thesis by (simp add: fst_row_zeros)
  next
    assume "p \<in> set (concat (map (\<lambda>(i, row). row_zeros i row) (enumerate (Suc n) m)))"
    then have "Suc n \<le> fst p" by (rule Cons.IH)
    then show ?thesis by simp
  qed
qed

lemma distinct_rows_from:
  "distinct (concat (map (\<lambda>(i, row). row_zeros i row) (enumerate n m)))"
proof (induction m arbitrary: n)
  case Nil
  show ?case by simp
next
  case (Cons row m)
  have "set (row_zeros n row) \<inter>
        set (concat (map (\<lambda>(i, row). row_zeros i row) (enumerate (Suc n) m))) = {}"
  proof (rule ccontr)
    assume "\<not> ?thesis"
    then obtain p where a: "p \<in> set (row_zeros n row)"
        and b: "p \<in> set (concat (map (\<lambda>(i, row). row_zeros i row) (enumerate (Suc n) m)))"
      by blast
    from a have "fst p = n" by (rule fst_row_zeros)
    moreover from b have "Suc n \<le> fst p" by (rule fst_rows_from)
    ultimately show False by simp
  qed
  with Cons.IH [of "Suc n"] distinct_row_zeros [of n row] show ?case by simp
qed

lemma distinct_argwhere_zero: "distinct (argwhere_zero m)"
  by (simp add: argwhere_zero_def distinct_rows_from)

lemma row_zeros_replicate: "length (row_zeros i (replicate W 0)) = W"
proof -
  have "filter (\<lambda>(j, v). v = (0::real)) (enumerate 0 (replicate W 0)) = enumerate 0 (replicate W 0)"
    by (rule filter_True) (auto simp add: in_set_enumerate_eq)
  then show ?thesis by (simp add: row_zeros_def)
qed

lemma length_rows_replicate:
  "length (concat (map (\<lambda>(i, row). row_zeros i row) (enumerate n (replicate H (replicate W 0))))) =
     H * W"
  by (induction H arbitrary: n) (simp_all add: row_zeros_replicate)

lemma length_argwhere_zero_replicate:
  "length (argwhere_zero (replicate H (replicate W 0))) = H * W"
  by (simp add: argwhere_zero_def length_rows_replicate)

lemma argwhere_zero_Nil_iff:
  "argwhere_zero m = [] \<longleftrightarrow> (\<forall>row \<in> set m. 0 \<notin> set row)"
proof
  assume e: "argwhere_zero m = []"
  show "\<forall>row \<in> set m. 0 \<notin> set row"
  proof (intro ballI notI)
    fix row assume "row \<in> set m" "0 \<in> set row"
    then obtain i j where "i < length m" "m ! i = row" "j < length row" "row ! j = 0"
      by (metis in_set_conv_nth)
    then have "(i, j) \<in> set (argwhere_zero m)" by (simp add: argwhere_zero_mem)
    with e show False by simp
  qed
next
  assume a: "\<forall>row \<in> set m. 0 \<notin> set row"
  show "argwhere_zero m = []"
  proof (cases "argwhere_zero m")
    case Nil
    then show ?thesis .
  next
    case (Cons p ps)
    then have "p \<in> set (argwhere_zero m)" by simp
    with argwhere_zero_mem [of "fst p" "snd p" m]
    have "fst p < length m" "snd p < length (m ! fst p)" "m ! fst p ! snd p = 0"
      by simp_all
    then have "m ! fst p \<in> set m" "0 \<in> set (m ! fst p)" by (auto simp add: in_set_conv_nth)
    with a show ?thesis by blast
  qed
qed

lemma row_zeros_map:
  assumes "\<And>v. f v = 0 \<longleftrightarrow> v = 0"
  shows "map (\<lambda>(j, v). (i, j)) (filter (\<lambda>(j, v). v = 0) (enumerate n (map f row))) =
         map (\<lambda>(j, v). (i, j)) (filter (\<lambda>(j, v). v = 0) (enumerate n row))"
  by (induction row arbitrary: n) (simp_all add: assms)

lemma rows_map:
  assumes "\<And>v. f v = 0 \<longleftrightarrow> v = 0"
  shows "concat (map (\<lambda>(i, row). row_zeros i row) (enumerate n (map (map f) m))) =
         concat (map (\<lambda>(i, row). row_zeros i row) (enumerate n m))"
  by (induction m arbitrary: n) (simp_all add: row_zeros_def row_zeros_map [OF assms])

lemma argwhere_zero_map:
  assumes "\<And>v. f v = 0 \<longleftrightarrow> v = 0"
  shows "argwhere_zero (map (map f) m) = argwhere_zero m"
  by (simp add: argwhere_zero_def rows_map [OF assms])

lemma shape_map: "shape (map (map f) m) = shape m"
  by (cases m) (simp_all add: shape_def)

subsection \<open>The aperture boxes\<close>

lemma collect_Inr: "collect (map (\<lambda>x. Inr (f x)) xs) = Inr (map f xs)"
  by (induction xs) simp_all

lemma concat_map_Nil: "concat (map (\<lambda>x. []) xs) = []"
  by (induction xs) simp_all

lemma solids_of_map_Shape: "solids_of (map Shape ss) = ss"
  by (induction ss) (simp_all add: solids_of_def)

lemma solids_of_map_Shape_comp: "solids_of (map (Shape \<circ> f) xs) = map f xs"
  by (induction xs) (simp_all add: solids_of_def)

lemma mask_model_eq:
  "mask_model m ms d =
     Inr \<lparr>objects =
            map Shape
              (if argwhere_zero m = []
               then [Box (0, 0, 0) (fst (px_size_of ms m), snd (px_size_of ms m), d)]
               else map (spec_aperture_box m ms d) (argwhere_zero m)),
          parent_solid = None, pendingEdges = [], pendingWires = [], firstPoint = None\<rparr>"
  by (simp add: mask_model_def chain_def bind_result_def pushPoints_def box_def newObject_def Workplane_XY_def
   findType_solid_def eachpoint_locs_def mask_to_points_def Let_def solids_of_def collect_Inr concat_map_Nil
   vadd_def split_def comp_def spec_aperture_box_def)

text \<open>
  When the mask has a zero cell, the aperture boxes are one box for each zero cell and for
  no other cell, in row-major order, each as the specification describes it.
\<close>

lemma mask_model_boxes:
  assumes "argwhere_zero m \<noteq> []"
  shows "result_solids (mask_model m ms d) = map (spec_aperture_box m ms d) (argwhere_zero m)"
  using assms by (simp add: mask_model_eq result_solids_def solids_of_map_Shape_comp)

text \<open>
  When the mask has no zero cell, the list of points is empty, \<open>pushPoints\<close> leaves an
  empty stack, and \<open>box\<close> then creates one box at the origin of the workplane.
\<close>

lemma mask_model_no_zero:
  assumes "argwhere_zero m = []"
  shows "result_solids (mask_model m ms d) =
           [Box (0, 0, 0) (fst (px_size_of ms m), snd (px_size_of ms m), d)]"
  using assms by (simp add: mask_model_eq result_solids_def solids_of_def)

text \<open>An all-transparent H x W mask gives H * W boxes (when it has a cell at all).\<close>

lemma mask_model_all_transparent:
  assumes "0 < H" "0 < W"
  shows "length (result_solids (mask_model (replicate H (replicate W 0)) ms d)) = H * W"
proof -
  from assms have "length (argwhere_zero (replicate H (replicate W 0))) \<noteq> 0"
    by (simp add: length_argwhere_zero_replicate)
  then have "argwhere_zero (replicate H (replicate W 0)) \<noteq> []" by simp
  then show ?thesis
    by (simp add: mask_model_boxes length_argwhere_zero_replicate)
qed

lemma mask_model_map:
  assumes "\<And>v. f v = 0 \<longleftrightarrow> v = 0"
  shows "mask_model (map (map f) m) ms d = mask_model m ms d"
  by (simp add: mask_model_def px_size_of_def mask_to_points_def shape_map argwhere_zero_map [OF assms])

subsection \<open>The whole model\<close>

lemma axis_test_eq:
  "axis_test =
     Inr \<lparr>objects =
            [Shape (Fuse (Fuse (Box (- (1 / 20), - (1 / 20), - 10) (1 / 10, 1 / 10, 20))
                               (Box (- (1 / 20), - 10, - (1 / 20)) (1 / 10, 20, 1 / 10)))
                         (Box (- 10, - (1 / 20), - (1 / 20)) (20, 1 / 10, 1 / 10)))],
          parent_solid =
            Some (Fuse (Box (- (1 / 20), - (1 / 20), - 10) (1 / 10, 1 / 10, 20))
                       (Box (- (1 / 20), - 10, - (1 / 20)) (1 / 10, 20, 1 / 10))),
          pendingEdges = [], pendingWires = [], firstPoint = None\<rparr>"
  by (simp add: axis_test_def cq_defs)

lemma Frame_generate_eq:
  "\<exists>s ps. Frame_generate f ms d =
     Inr \<lparr>objects = [Shape s], parent_solid = ps, pendingEdges = [], pendingWires = [], firstPoint = None\<rparr>"
proof (cases f)
  case (SimpleFrame p)
  then show ?thesis
    using SimpleFrame_generate_eq [of p "fst ms" "snd ms" d] by simp
qed

lemma Connection_generate_eq:
  "\<exists>s ps. Connection_generate c m ms d =
     Inr \<lparr>objects = [Shape s], parent_solid = ps, pendingEdges = [], pendingWires = [], firstPoint = None\<rparr>"
proof (cases c)
  case (CrossConnection t r)
  then show ?thesis
    using CrossConnection_generate_None [of t m "fst ms" "snd ms" d]
      CrossConnection_generate_Some [of t _ m "fst ms" "snd ms" d]
    by (cases r) simp_all
next
  case (SaltireConnection t r)
  then show ?thesis
    using SaltireConnection_generate_None [of t m "fst ms" "snd ms" d]
      SaltireConnection_generate_Some [of t _ m "fst ms" "snd ms" d]
    by (cases r) simp_all
qed

lemma mask_model_Inr:
  "\<exists>b bs. mask_model m ms d =
     Inr \<lparr>objects = map Shape (b # bs), parent_solid = None, pendingEdges = [], pendingWires = [],
          firstPoint = None\<rparr>"
proof (cases "argwhere_zero m")
  case Nil
  then show ?thesis by (simp add: mask_model_eq)
next
  case (Cons p ps)
  then show ?thesis
    by (intro exI [of _ "spec_aperture_box m ms d p"] exI [of _ "map (spec_aperture_box m ms d) ps"])
       (simp add: mask_model_eq)
qed

text \<open>
  In the model no method of the chains fails, whatever the numbers are; of the program
  this says that no check of its own stops the construction.
\<close>

lemma generate_3d_model_succeeds: "\<not> isl (generate_3d_model m f c ms d s a)"
proof -
  obtain sf pf where F: "Frame_generate f ms d =
     Inr \<lparr>objects = [Shape sf], parent_solid = pf, pendingEdges = [], pendingWires = [], firstPoint = None\<rparr>"
    using Frame_generate_eq by blast
  obtain sc pc where C: "Connection_generate c m ms d =
     Inr \<lparr>objects = [Shape sc], parent_solid = pc, pendingEdges = [], pendingWires = [], firstPoint = None\<rparr>"
    using Connection_generate_eq by blast
  obtain b bs where M: "mask_model m ms d =
     Inr \<lparr>objects = map Shape (b # bs), parent_solid = None, pendingEdges = [], pendingWires = [],
          firstPoint = None\<rparr>"
    using mask_model_Inr by blast
  show ?thesis
    by (simp add: generate_3d_model_def F C M axis_test_eq bind_result_def combine_def add_def
        Workplane_XY_def newObject_def solids_of_def Let_def)
qed

lemma generate_3d_model_plain:
  "result_solids (generate_3d_model m f c ms d False False) =
     result_solids (Frame_generate f ms d) @ result_solids (Connection_generate c m ms d) @
     result_solids (mask_model m ms d)"
proof -
  obtain sf pf where F: "Frame_generate f ms d =
     Inr \<lparr>objects = [Shape sf], parent_solid = pf, pendingEdges = [], pendingWires = [], firstPoint = None\<rparr>"
    using Frame_generate_eq by blast
  obtain sc pc where C: "Connection_generate c m ms d =
     Inr \<lparr>objects = [Shape sc], parent_solid = pc, pendingEdges = [], pendingWires = [], firstPoint = None\<rparr>"
    using Connection_generate_eq by blast
  obtain b bs where M: "mask_model m ms d =
     Inr \<lparr>objects = map Shape (b # bs), parent_solid = None, pendingEdges = [], pendingWires = [],
          firstPoint = None\<rparr>"
    using mask_model_Inr by blast
  show ?thesis
    by (simp add: generate_3d_model_def F C M bind_result_def add_def result_solids_def
        Workplane_XY_def solids_of_def Let_def)
qed

lemma Connection_generate_mask: "Connection_generate c m1 ms d = Connection_generate c m2 ms d"
  by (cases c) (simp_all add: CrossConnection_generate_def SaltireConnection_generate_def)

lemma generate_3d_model_map:
  assumes "\<And>v. f v = 0 \<longleftrightarrow> v = 0"
  shows "generate_3d_model (map (map f) m) fr c ms d s a = generate_3d_model m fr c ms d s a"
  by (simp add: generate_3d_model_def mask_model_map [OF assms]
      Connection_generate_mask [of c "map (map f) m" ms d m])

text \<open>
  C1, at the all-opaque mask. The aperture builder is to emit a box for each cell of
  value 0 and for no other cell, so that an all-opaque mask yields no aperture box. The
  program emits one box too many there: the mask \<open>[[1, 1], [1, 1]]\<close> has no zero cell,
  and the model built from it (sensor size 1 mm x 1 mm, depth 0.5, \<open>SimpleFrame(2)\<close>,
  \<open>CrossConnection(0.1)\<close>) holds, after the frame and the cross, one aperture box of
  one pixel's size at the origin.
\<close>

theorem MaskModel_init_all_opaque:
  "argwhere_zero [[1, 1], [1, 1]] = [] \<and>
   map_sum id (\<lambda>M. solids_of (objects (self_model M)))
     (MaskModel_init [[1, 1], [1, 1]] (SimpleFrame 2) (CrossConnection (1 / 10) None)
        (1 / 1000, 1 / 1000) (1 / 2) False False) =
   Inr [spec_frame 2 1 1 (1 / 2), spec_cross_struts (1 / 10) 1 1 (1 / 2),
        Box (0, 0, 0) (1 / 2, 1 / 2, 1 / 2)]"
proof -
  have z: "argwhere_zero [[1, 1], [1, 1]] = []"
    by (simp add: argwhere_zero_def row_zeros_def)
  then show ?thesis
    by (simp add: MaskModel_init_def generate_3d_model_def SimpleFrame_generate_eq
        CrossConnection_generate_None mask_model_eq bind_result_def add_def Workplane_XY_def
        solids_of_def px_size_of_def shape_def)
qed

text \<open>
  C2, as the program has it. For every construction with a mask of H rows and W columns
  (both positive) and a sensor size (sw, sh) in metres, the size kept is
  (width, height) = (1000 sw, 1000 sh), and the pixel size that every aperture box has
  is pixel_width = width / H and pixel_height = height / W: each component of the size is
  divided by the extent of the array along the axis of the same index. Without
  \<open>simplify\<close> and \<open>show_axis\<close> the model is the frame, the connection and these boxes.
\<close>

theorem MaskModel_pixel_size:
  assumes "shape m = (H, W)" "0 < H" "0 < W"
  shows "map_sum id self_mask_size (MaskModel_init m f c (sw, sh) d s a) = Inr (sw * 1000, sh * 1000) \<and>
         px_size_of (sw * 1000, sh * 1000) m = (sw * 1000 / real H, sh * 1000 / real W) \<and>
         (\<forall>b \<in> set (result_solids (mask_model m (sw * 1000, sh * 1000) d)).
            \<exists>p. b = Box p (sw * 1000 / real H, sh * 1000 / real W, d)) \<and>
         map_sum id (\<lambda>M. solids_of (objects (self_model M))) (MaskModel_init m f c (sw, sh) d False False) =
           Inr (result_solids (Frame_generate f (sw * 1000, sh * 1000) d) @
                result_solids (Connection_generate c m (sw * 1000, sh * 1000) d) @
                result_solids (mask_model m (sw * 1000, sh * 1000) d))"
proof (intro conjI)
  have ok: "\<not> isl (generate_3d_model m f c (sw * 1000, sh * 1000) d s' a')" for s' a'
    by (rule generate_3d_model_succeeds)
  show "map_sum id self_mask_size (MaskModel_init m f c (sw, sh) d s a) = Inr (sw * 1000, sh * 1000)"
    using ok [of s a]
    by (cases "generate_3d_model m f c (sw * 1000, sh * 1000) d s a")
       (simp_all add: MaskModel_init_def bind_result_def)
  show px: "px_size_of (sw * 1000, sh * 1000) m = (sw * 1000 / real H, sh * 1000 / real W)"
    using assms by (simp add: px_size_of_def)
  show "\<forall>b \<in> set (result_solids (mask_model m (sw * 1000, sh * 1000) d)).
            \<exists>p. b = Box p (sw * 1000 / real H, sh * 1000 / real W, d)"
    by (auto simp add: mask_model_eq result_solids_def solids_of_map_Shape px spec_aperture_box_def)
  show "map_sum id (\<lambda>M. solids_of (objects (self_model M))) (MaskModel_init m f c (sw, sh) d False False) =
           Inr (result_solids (Frame_generate f (sw * 1000, sh * 1000) d) @
                result_solids (Connection_generate c m (sw * 1000, sh * 1000) d) @
                result_solids (mask_model m (sw * 1000, sh * 1000) d))"
    using ok [of False False] generate_3d_model_plain [of m f c "(sw * 1000, sh * 1000)" d]
    by (cases "generate_3d_model m f c (sw * 1000, sh * 1000) d False False")
       (simp_all add: MaskModel_init_def bind_result_def result_solids_def)
qed

theorem MaskModel_pixel_size_witness:
  "map_sum id self_mask_size
     (MaskModel_init [[0, 0]] (SimpleFrame 2) (CrossConnection (1 / 10) None) (1 / 1000, 1 / 1000) (1 / 2)
        False False) = Inr (1, 1) \<and>
   px_size_of (1, 1) [[0, 0]] = (1, 1 / 2) \<and>
   map_sum id (\<lambda>M. solids_of (objects (self_model M)))
     (MaskModel_init [[0, 0]] (SimpleFrame 2) (CrossConnection (1 / 10) None) (1 / 1000, 1 / 1000) (1 / 2)
        False False) =
   Inr [spec_frame 2 1 1 (1 / 2), spec_cross_struts (1 / 10) 1 1 (1 / 2),
        Box (- (1 / 2), - (1 / 2), 0) (1, 1 / 2, 1 / 2), Box (- (1 / 2), 0, 0) (1, 1 / 2, 1 / 2)]"
proof -
  have sh: "shape [[0, 0]] = (1, 2)" by (simp add: shape_def)
  have z: "argwhere_zero [[0, 0]] = [(0, 0), (0, 1)]"
    by (simp add: argwhere_zero_def row_zeros_def)
  have mm: "result_solids (mask_model [[0, 0]] (1, 1) (1 / 2)) =
      [Box (- (1 / 2), - (1 / 2), 0) (1, 1 / 2, 1 / 2), Box (- (1 / 2), 0, 0) (1, 1 / 2, 1 / 2)]"
    by (simp add: mask_model_eq z result_solids_def solids_of_def spec_aperture_box_def px_size_of_def sh)
  show ?thesis
    using MaskModel_pixel_size [OF sh, of "SimpleFrame 2" "CrossConnection (1 / 10) None"
        "1 / 1000" "1 / 1000" "1 / 2" False False] mm
    by (simp add: SimpleFrame_generate_eq CrossConnection_generate_None result_solids_Inr solids_of_Shape)
qed

text \<open>
  C2 fails as stated: for the 1 x 2 mask \<open>[[0, 0]]\<close> and the sensor size 1 mm x 1 mm the
  pixel size is (1, 1/2), and not (width / W, height / H) = (1/2, 1); the two aperture
  boxes are 1 long in x and 1/2 long in y.
\<close>

theorem MaskModel_pixel_size_transposed:
  "shape [[0, 0]] = (1, 2) \<and>
   px_size_of (1 / 1000 * 1000, 1 / 1000 * 1000) [[0, 0]] = (1, 1 / 2) \<and>
   px_size_of (1 / 1000 * 1000, 1 / 1000 * 1000) [[0, 0]] \<noteq>
     (1 / 1000 * 1000 / real (snd (shape [[0, 0]])), 1 / 1000 * 1000 / real (fst (shape [[0, 0]]))) \<and>
   map_sum id (\<lambda>M. solids_of (objects (self_model M)))
     (MaskModel_init [[0, 0]] (SimpleFrame 2) (CrossConnection (1 / 10) None) (1 / 1000, 1 / 1000) (1 / 2)
        False False) =
   Inr [spec_frame 2 1 1 (1 / 2), spec_cross_struts (1 / 10) 1 1 (1 / 2),
        Box (- (1 / 2), - (1 / 2), 0) (1, 1 / 2, 1 / 2), Box (- (1 / 2), 0, 0) (1, 1 / 2, 1 / 2)]"
proof -
  have z: "argwhere_zero [[0, 0]] = [(0, 0), (0, 1)]"
    by (simp add: argwhere_zero_def row_zeros_def)
  show ?thesis
    by (simp add: MaskModel_init_def generate_3d_model_def SimpleFrame_generate_eq
        CrossConnection_generate_None mask_model_eq z bind_result_def add_def Workplane_XY_def
        solids_of_def px_size_of_def shape_def spec_aperture_box_def)
qed

text \<open>
  C9, as the program has it. A value outside {0, 1} does not make the construction
  abort: a value other than 0 counts as opaque, and the construction does with a mask
  exactly what it does with the mask in which every non-zero value is replaced by 1 (the
  same model and fields, the mask kept apart; or the same failure).
\<close>

theorem MaskModel_init_any_values:
  "map_sum id (\<lambda>M. M\<lparr>self_mask := m\<rparr>)
     (MaskModel_init (map (map (\<lambda>v. if v = 0 then 0 else 1)) m) f c ms d s a) =
   MaskModel_init m f c ms d s a"
proof -
  have eq: "generate_3d_model (map (map (\<lambda>v. if v = 0 then 0 else 1)) m) f c (fst ms * 1000, snd ms * 1000) d s a =
            generate_3d_model m f c (fst ms * 1000, snd ms * 1000) d s a"
    by (rule generate_3d_model_map) simp
  show ?thesis
    by (cases "generate_3d_model m f c (fst ms * 1000, snd ms * 1000) d s a")
       (simp_all add: MaskModel_init_def bind_result_def eq)
qed

text \<open>
  C9 fails as stated: the mask \<open>[[2, 0]]\<close> holds the value 2, and the construction
  returns a model (the frame, the cross and the box of the one zero cell).
\<close>

theorem MaskModel_init_value_two:
  "2 \<notin> {0, 1 :: real} \<and>
   map_sum id (\<lambda>M. solids_of (objects (self_model M)))
     (MaskModel_init [[2, 0]] (SimpleFrame 2) (CrossConnection (1 / 10) None) (1 / 1000, 1 / 1000) (1 / 2)
        False False) =
   Inr [spec_frame 2 1 1 (1 / 2), spec_cross_struts (1 / 10) 1 1 (1 / 2),
        Box (- (1 / 2), 0, 0) (1, 1 / 2, 1 / 2)]"
proof -
  have z: "argwhere_zero [[2, 0]] = [(0, 1)]"
    by (simp add: argwhere_zero_def row_zeros_def)
  show ?thesis
    by (simp add: MaskModel_init_def generate_3d_model_def SimpleFrame_generate_eq
        CrossConnection_generate_None mask_model_eq z bind_result_def add_def Workplane_XY_def
        solids_of_def px_size_of_def shape_def spec_aperture_box_def)
qed

end
